theory Spec2Isabelle
  imports Complex_Main "HOL-Library.AList"
begin

section \<open>JavaScript values\<close>

text \<open>
  The hub receives its queries, mutations and records as plain JavaScript objects
  (\<^verbatim>\<open>data: any\<close>), serialises them with \<^verbatim>\<open>JSON.stringify\<close> and reads their
  properties dynamically. They are modelled as JSON values. An object is the list of its own
  properties in enumeration order, which is the order \<^verbatim>\<open>JSON.stringify\<close> and
  \<^verbatim>\<open>Object.entries\<close> visit them in. A number is a double, kept as the rational
  number it stands for (the infinities and \<^verbatim>\<open>NaN\<close> are no JSON values). A property
  that is \<^verbatim>\<open>undefined\<close> is absent from the list, and reading it gives \<open>None\<close>.
  Strings are byte strings in UTF-8, which is what \<^verbatim>\<open>Buffer.from(s)\<close> makes of a
  string.
\<close>

datatype json =
    JNull
  | JBool bool
  | JNum rat
  | JStr string
  | JArr "json list"
  | JObj "(string \<times> json) list"

text \<open>Property read \<^verbatim>\<open>v.k\<close> on a value other than null or undefined.\<close>

fun field :: "string \<Rightarrow> json \<Rightarrow> json option" where
  "field k (JObj kvs) = map_of kvs k"
| "field k v = None"

text \<open>JavaScript truthiness, as used by \<^verbatim>\<open>if (v)\<close> and \<^verbatim>\<open>a || b\<close>.\<close>

fun truthy :: "json \<Rightarrow> bool" where
  "truthy JNull = False"
| "truthy (JBool b) = b"
| "truthy (JNum n) = (n \<noteq> 0)"
| "truthy (JStr s) = (s \<noteq> [])"
| "truthy (JArr xs) = True"
| "truthy (JObj kvs) = True"

fun truthy_opt :: "json option \<Rightarrow> bool" where
  "truthy_opt None = False"
| "truthy_opt (Some v) = truthy v"

subsection \<open>Doubles\<close>

text \<open>
  Integer powers and the integer part of a logarithm, on integers and rationals:
  \<open>ilen b p\<close> is the number of digits of \<open>p\<close> in base \<open>b\<close>, and \<open>ilog b x\<close> is the
  greatest \<open>k\<close> with \<open>b\<close> to the \<open>k\<close> at most \<open>x\<close>, for a positive \<open>x\<close>.
\<close>

function ipow :: "int \<Rightarrow> int \<Rightarrow> rat" where
  "ipow b k =
     (if k < 0 then 1 / ipow b (- k)
      else if k = 0 then 1
      else if even k then (let h = ipow b (k div 2) in h * h)
      else of_int b * ipow b (k - 1))"
  by pat_completeness auto
termination
  by (relation "measure (\<lambda>(b, k). if k < 0 then nat (1 - 2 * k) else nat (2 * k))") auto

function ilen :: "int \<Rightarrow> int \<Rightarrow> int" where
  "ilen b p = (if 0 < p \<and> 1 < b then ilen b (p div b) + 1 else 0)"
  by pat_completeness auto
termination
  by (relation "measure (\<lambda>(b, p). nat p)") (auto intro: int_div_less_self)

definition ilog :: "int \<Rightarrow> rat \<Rightarrow> int" where
  "ilog b x =
     (case quotient_of x of
        (p, q) \<Rightarrow>
          (let t = ilen b p - ilen b q
           in if ipow b t \<le> x then t else t - 1))"

text \<open>
  The double nearest to a rational number, ties going to the even significand: 53 bits
  of significand, and steps of 2 to the -1074 at the bottom of the range. Every
  arithmetic operation of the source on numbers is the exact operation followed by this
  rounding. The top of the range is not modelled (no number of the hub comes near it).
\<close>

definition round_half_even :: "rat \<Rightarrow> int" where
  "round_half_even m =
     (let r = \<lfloor>m\<rfloor>; d = m - of_int r
      in if d < 1 / 2 then r else if 1 / 2 < d then r + 1 else if even r then r else r + 1)"

definition to_double :: "rat \<Rightarrow> rat" where
  "to_double x =
     (if x = 0 then 0
      else let u = ipow 2 (max (ilog 2 \<bar>x\<bar> - 52) (- 1074))
           in sgn x * of_int (round_half_even (\<bar>x\<bar> / u)) * u)"

definition double_add :: "rat \<Rightarrow> rat \<Rightarrow> rat" where
  "double_add a b = to_double (a + b)"

definition double_mul :: "rat \<Rightarrow> rat \<Rightarrow> rat" where
  "double_mul a b = to_double (a * b)"

definition double_div :: "rat \<Rightarrow> rat \<Rightarrow> rat" where
  "double_div a b = to_double (a / b)"

subsection \<open>Numbers and strings as text\<close>

definition digit_char :: "nat \<Rightarrow> char" where
  "digit_char d = char_of (48 + d)"

function string_of_pos :: "int \<Rightarrow> string" where
  "string_of_pos n =
     (if n < 10 then [digit_char (nat n)]
      else string_of_pos (n div 10) @ [digit_char (nat (n mod 10))])"
  by pat_completeness auto
termination
  by (relation "measure nat") auto

definition string_of_nat :: "nat \<Rightarrow> string" where
  "string_of_nat n = string_of_pos (int n)"

text \<open>
  \<^verbatim>\<open>Number::toString\<close> of a positive double \<open>x\<close>. The digits are those of the
  shortest decimal \<open>s\<close> times 10 to the \<open>n - k\<close>, with \<open>k\<close> digits in \<open>s\<close>, that reads
  back as \<open>x\<close>; of two such decimals the nearer one is taken, and the even one when they
  are equally near. \<open>n0\<close> is the number of digits of the integer part of \<open>x\<close>. A double
  needs at most 17 digits.
\<close>

definition digits_candidate :: "rat \<Rightarrow> int \<Rightarrow> int \<Rightarrow> (int \<times> int) option" where
  "digits_candidate x n0 k =
     (let scale = ipow 10 (n0 - k);
          lo = \<lfloor>x / scale\<rfloor>;
          hi = lo + 1;
          lo_ok = (to_double (of_int lo * scale) = x);
          hi_ok = (to_double (of_int hi * scale) = x);
          dlo = x - of_int lo * scale;
          dhi = of_int hi * scale - x
      in if hi_ok \<and> (\<not> lo_ok \<or> dhi < dlo \<or> (dhi = dlo \<and> even hi))
         then (if of_int hi = ipow 10 k then Some (1, n0 + 1) else Some (hi, n0))
         else if lo_ok then Some (lo, n0)
         else None)"

fun shortest_digits :: "rat \<Rightarrow> int \<Rightarrow> int \<Rightarrow> nat \<Rightarrow> int \<times> int" where
  "shortest_digits x n0 k 0 = (\<lfloor>x / ipow 10 (n0 - k)\<rfloor>, n0)"
| "shortest_digits x n0 k (Suc fuel) =
     (case digits_candidate x n0 k of
        Some sn \<Rightarrow> sn
      | None \<Rightarrow> shortest_digits x n0 (k + 1) fuel)"

text \<open>
  The digits are laid out as an integer, as a decimal fraction, or with an exponent when
  \<open>n\<close> is above 21 or below -5.
\<close>

definition number_text :: "rat \<Rightarrow> string" where
  "number_text x =
     (case shortest_digits x (ilog 10 x + 1) 1 17 of
        (s, n) \<Rightarrow>
          (let ds = string_of_pos s; k = int (length ds)
           in if k \<le> n \<and> n \<le> 21 then ds @ replicate (nat (n - k)) CHR ''0''
              else if 0 < n \<and> n \<le> 21 then take (nat n) ds @ ''.'' @ drop (nat n) ds
              else if - 6 < n \<and> n \<le> 0 then ''0.'' @ replicate (nat (- n)) CHR ''0'' @ ds
              else (let e = n - 1;
                        es = (if e < 0 then ''-'' else ''+'') @ string_of_pos \<bar>e\<bar>
                    in if k = 1 then ds @ ''e'' @ es
                       else take 1 ds @ ''.'' @ drop 1 ds @ ''e'' @ es)))"

text \<open>
  \<^verbatim>\<open>Number::toString\<close>. An integer up to 2 to the 53 is a double whose shortest
  decimal is the integer itself, so it prints as its digits without the search. Any other
  number prints as the double nearest to it, and as 0 when that double is zero.
\<close>

definition number_to_string :: "rat \<Rightarrow> string" where
  "number_to_string v =
     (if of_int \<lfloor>v\<rfloor> = v \<and> \<bar>v\<bar> \<le> 9007199254740992
      then (if v < 0 then ''-'' else []) @ string_of_pos \<bar>\<lfloor>v\<rfloor>\<bar>
      else let x = to_double \<bar>v\<bar> in
           if x = 0 then ''0''
           else (if v < 0 then ''-'' else []) @ number_text x)"

fun join_comma :: "string list \<Rightarrow> string" where
  "join_comma [] = []"
| "join_comma [x] = x"
| "join_comma (x # y # ys) = x @ '','' @ join_comma (y # ys)"

text \<open>
  String conversion of a template literal \<^verbatim>\<open>`${v}`\<close>; \<^verbatim>\<open>undefined\<close> prints as
  its name. Inside an array, null prints as the empty string.
\<close>

primrec to_string :: "json \<Rightarrow> string" where
  "to_string JNull = ''null''"
| "to_string (JBool b) = (if b then ''true'' else ''false'')"
| "to_string (JNum n) = number_to_string n"
| "to_string (JStr s) = s"
| "to_string (JArr xs) =
     join_comma (map (\<lambda>(x, sx). if x = JNull then [] else sx) (zip xs (map to_string xs)))"
| "to_string (JObj kvs) = ''[object Object]''"

fun to_string_opt :: "json option \<Rightarrow> string" where
  "to_string_opt None = ''undefined''"
| "to_string_opt (Some v) = to_string v"

subsection \<open>\<^verbatim>\<open>JSON.stringify\<close>\<close>

definition hex_digit :: "nat \<Rightarrow> char" where
  "hex_digit d = (if d < 10 then char_of (48 + d) else char_of (87 + d))"

text \<open>
  Escapes of a string literal: the quote, the backslash, the five short escapes and
  \<^verbatim>\<open>\u00xx\<close> for the other control characters.
\<close>

definition escape_char :: "char \<Rightarrow> string" where
  "escape_char c =
     (let n = (of_char c :: nat) in
      if n = 0x22 then [CHR 0x5C, CHR 0x22]
      else if n = 0x5C then [CHR 0x5C, CHR 0x5C]
      else if n = 0x08 then [CHR 0x5C, CHR ''b'']
      else if n = 0x0C then [CHR 0x5C, CHR ''f'']
      else if n = 0x0A then [CHR 0x5C, CHR ''n'']
      else if n = 0x0D then [CHR 0x5C, CHR ''r'']
      else if n = 0x09 then [CHR 0x5C, CHR ''t'']
      else if n < 0x20 then
        [CHR 0x5C, CHR ''u'', CHR ''0'', CHR ''0'', hex_digit (n div 16), hex_digit (n mod 16)]
      else [c])"

definition quote :: "string \<Rightarrow> string" where
  "quote s = [CHR 0x22] @ concat (map escape_char s) @ [CHR 0x22]"

primrec stringify :: "json \<Rightarrow> string" where
  "stringify JNull = ''null''"
| "stringify (JBool b) = (if b then ''true'' else ''false'')"
| "stringify (JNum n) = number_to_string n"
| "stringify (JStr s) = quote s"
| "stringify (JArr xs) = ''['' @ join_comma (map stringify xs) @ '']''"
| "stringify (JObj kvs) =
     ''{'' @ join_comma (map (\<lambda>(k, sv). quote k @ '':'' @ sv) (map (map_prod id stringify) kvs))
       @ ''}''"

subsection \<open>Base64\<close>

definition b64_alphabet :: string where
  "b64_alphabet = ''ABCDEFGHIJKLMNOPQRSTUVWXYZabcdefghijklmnopqrstuvwxyz0123456789+/''"

definition b64_char :: "nat \<Rightarrow> char" where
  "b64_char n = b64_alphabet ! (n mod 64)"

text \<open>\<^verbatim>\<open>Buffer.toString('base64')\<close>: three bytes give four characters, padded with =.\<close>

fun base64 :: "nat list \<Rightarrow> string" where
  "base64 [] = []"
| "base64 [a] = [b64_char (a div 4), b64_char ((a mod 4) * 16), CHR ''='', CHR ''='']"
| "base64 [a, b] =
     [b64_char (a div 4), b64_char ((a mod 4) * 16 + b div 16), b64_char ((b mod 16) * 4),
      CHR ''='']"
| "base64 (a # b # c # bs) =
     [b64_char (a div 4), b64_char ((a mod 4) * 16 + b div 16),
      b64_char ((b mod 16) * 4 + c div 64), b64_char (c mod 64)] @ base64 bs"

section \<open>Data Management Hub: cache keys\<close>

definition cache_prefix :: string where
  "cache_prefix = ''dmh:''"

definition default_ttl :: rat where
  "default_ttl = 3600"

text \<open>
  \<^verbatim>\<open>generateCacheKey(type, data)\<close>: the first 16 characters of the Base64 text of
  \<^verbatim>\<open>JSON.stringify(data)\<close>, behind the prefix and the type.
\<close>

definition generateCacheKey :: "string \<Rightarrow> json \<Rightarrow> string" where
  "generateCacheKey type data =
     (let hash = take 16 (base64 (map of_char (stringify data)))
      in cache_prefix @ type @ '':'' @ hash)"

section \<open>Cache store\<close>

text \<open>
  The cache store is Redis. An entry keeps the key, the time to live it was written with
  and the cached value. The value is stored as \<^verbatim>\<open>JSON.stringify\<close> text and read back
  with \<^verbatim>\<open>JSON.parse\<close>; on JSON values that round trip is the identity, so the entry
  holds the value itself. There is no clock in the model: an entry stays until it is deleted
  or overwritten.
\<close>

type_synonym redis_store = "(string \<times> int \<times> json) list"

text \<open>
  Key patterns of the \<^verbatim>\<open>KEYS\<close> command: \<^verbatim>\<open>*\<close> matches any run of characters,
  \<^verbatim>\<open>?\<close> one character, any other character itself. Character classes and escapes are
  not modelled (the hub builds its patterns from the prefix, entity names and ids).
\<close>

fun glob_match :: "string \<Rightarrow> string \<Rightarrow> bool" where
  "glob_match [] s = (s = [])"
| "glob_match (p # ps) [] = (p = CHR ''*'' \<and> glob_match ps [])"
| "glob_match (p # ps) (c # cs) =
     (if p = CHR ''*'' then glob_match ps (c # cs) \<or> glob_match (p # ps) cs
      else if p = CHR ''?'' then glob_match ps cs
      else p = c \<and> glob_match ps cs)"

definition redis_get :: "redis_store \<Rightarrow> string \<Rightarrow> json option" where
  "redis_get st k = map_option snd (map_of st k)"

definition redis_setex :: "string \<Rightarrow> int \<Rightarrow> json \<Rightarrow> redis_store \<Rightarrow> redis_store" where
  "redis_setex k ttl v st = (k, ttl, v) # filter (\<lambda>e. fst e \<noteq> k) st"

definition redis_keys :: "string \<Rightarrow> redis_store \<Rightarrow> string list" where
  "redis_keys pat st = filter (glob_match pat) (map fst st)"

definition redis_del :: "string list \<Rightarrow> redis_store \<Rightarrow> redis_store" where
  "redis_del ks st = filter (\<lambda>e. fst e \<notin> set ks) st"

section \<open>Data Management Hub: state and collaborators\<close>

text \<open>
  What the code raises: the runtime's \<^verbatim>\<open>TypeError\<close> for a property read of null or
  undefined and for a call of something that is no function, the hub's errors
  \<^verbatim>\<open>Repository not found for entity\<close> and \<^verbatim>\<open>Unsupported operation\<close> with the
  offending value, the provider's \<^verbatim>\<open>Module requirements not found\<close>, the failure of a
  cache command, the failures of the storage engine, and the error of a rollback without
  an active transaction. \<open>PermissionDenied\<close> is the refusal of a caller without the
  required permissions; no function of the source raises it.
\<close>

datatype error =
    TypeError
  | RepositoryNotFound "json option"
  | UnsupportedOperation "json option"
  | ModuleRequirementsNotFound string
  | PermissionDenied
  | CacheError
  | StorageError string
  | TransactionNotStarted

text \<open>
  Events handed to the event emitter, without their timestamps:
  \<^verbatim>\<open>data.accessed\<close> (entity, result count, query time) and
  \<^verbatim>\<open>data.mutated\<close> (entity, operation, data, result).
\<close>

datatype event =
    DataAccessed string nat nat
  | DataMutated "json option" "json option" "json option" json

record metrics =
  queryCount :: nat
  cacheHits :: nat
  cacheMisses :: nat
  avgQueryTime :: rat
  totalQueries :: nat

record performance_metrics = metrics +
  cacheHitRatio :: rat

text \<open>
  The state the hub works on: its counters, the cache store, the committed content of the
  primary store, and the events emitted so far. \<open>redis_calls\<close> counts the commands sent
  to the cache store and \<open>storage_reads\<close> the select queries executed on the primary
  store. \<open>open_transactions\<close> holds the content of every transaction that was still
  open when its connection was released: writes that are neither committed nor rolled
  back. The four counters are natural numbers (a double holds them exactly below 2 to the
  53); the average query time and the hit ratio are doubles.
\<close>

record 'db hub =
  hub_metrics :: metrics
  redis :: redis_store
  redis_calls :: nat
  db :: 'db
  storage_reads :: nat
  open_transactions :: "'db list"
  events :: "event list"

text \<open>
  One call of a query builder, with the arguments the source passes: entity, relation or
  field, parameter index and value.
\<close>

datatype clause =
    LeftJoinAndSelect string json
  | AndWhereIn string string nat json
  | AndWhereOp string string json nat "json option"
  | AndWhereEq string string nat json
  | AddOrderBy string string json
  | Take json
  | Skip json

text \<open>
  The collaborators outside the repository are parameters. \<open>redis_fault n\<close> tells whether
  the \<open>n\<close>-th command sent to the cache store fails; \<open>elapsed n\<close> is the time
  measured for the \<open>n\<close>-th query. The other fields are the storage engine (TypeORM): the
  execution of an entity's select query on the committed store, and the repository
  operations of a transaction. A repository operation works on the content the
  transaction sees and returns its result or its error, together with the content it
  leaves, which may hold writes also when the operation failed. \<open>commit\<close> gives the error
  of a failing commit. \<open>rollback_inactive\<close> is what \<^verbatim>\<open>rollbackTransaction\<close> raises
  when the transaction is no longer active, if it raises at all. Connecting, starting a
  transaction, rolling an active transaction back and releasing the connection succeed.
\<close>

record 'db env =
  redis_fault :: "nat \<Rightarrow> bool"
  elapsed :: "nat \<Rightarrow> nat"
  getMany :: "string \<Rightarrow> clause list \<Rightarrow> 'db \<Rightarrow> error + json list"
  repo_create :: "json option \<Rightarrow> json option \<Rightarrow> error + json"
  repo_save :: "json option \<Rightarrow> json option \<Rightarrow> 'db \<Rightarrow> (error + json) \<times> 'db"
  repo_update :: "json option \<Rightarrow> json option \<Rightarrow> json option \<Rightarrow> 'db \<Rightarrow> (error + unit) \<times> 'db"
  repo_findOne :: "json option \<Rightarrow> json option \<Rightarrow> 'db \<Rightarrow> (error + json) \<times> 'db"
  repo_delete :: "json option \<Rightarrow> json option \<Rightarrow> 'db \<Rightarrow> (error + json option) \<times> 'db"
  commit :: "'db \<Rightarrow> error option"
  rollback_inactive :: "error option"

definition initial_metrics :: metrics where
  "initial_metrics =
     \<lparr>queryCount = 0, cacheHits = 0, cacheMisses = 0, avgQueryTime = 0, totalQueries = 0\<rparr>"

definition initial_hub :: "'db \<Rightarrow> 'db hub" where
  "initial_hub d =
     \<lparr>hub_metrics = initial_metrics, redis = [], redis_calls = 0, db = d, storage_reads = 0,
      open_transactions = [], events = []\<rparr>"

text \<open>\<^verbatim>\<open>registerRepositories\<close> and \<^verbatim>\<open>getRepository\<close>: seven entities have one.\<close>

definition repositories :: "string list" where
  "repositories =
     [''Client'', ''Case'', ''Document'', ''User'', ''Message'', ''Payment'', ''Notification'']"

fun getRepository :: "json option \<Rightarrow> string option" where
  "getRepository (Some (JStr name)) = (if name \<in> set repositories then Some name else None)"
| "getRepository v = None"

subsection \<open>Cache helpers\<close>

text \<open>
  \<^verbatim>\<open>getFromCache\<close>: a failing read is caught and gives null, as an absent key does.
\<close>

definition getFromCache :: "'db env \<Rightarrow> string \<Rightarrow> 'db hub \<Rightarrow> json \<times> 'db hub" where
  "getFromCache env key s =
     (let s' = s\<lparr>redis_calls := redis_calls s + 1\<rparr> in
      if redis_fault env (redis_calls s) then (JNull, s')
      else case redis_get (redis s) key of
             None \<Rightarrow> (JNull, s')
           | Some v \<Rightarrow> (v, s'))"

text \<open>
  The time to live reaches \<^verbatim>\<open>SETEX\<close> as the text of the value it was given. The
  store takes a decimal integer without sign and without leading zero, above 0 and at most
  the greatest 64-bit integer divided by 1000 (the store's further limit, which depends on
  the time of day, is not modelled), and refuses every other text.
\<close>

definition is_digit :: "char \<Rightarrow> bool" where
  "is_digit c = (48 \<le> (of_char c :: nat) \<and> (of_char c :: nat) \<le> 57)"

fun digits_value :: "string \<Rightarrow> int \<Rightarrow> int" where
  "digits_value [] acc = acc"
| "digits_value (c # cs) acc = digits_value cs (10 * acc + int (of_char c) - 48)"

definition parse_ttl :: "string \<Rightarrow> int option" where
  "parse_ttl t =
     (if t \<noteq> [] \<and> list_all is_digit t \<and> hd t \<noteq> CHR ''0''
         \<and> digits_value t 0 \<le> 9223372036854775
      then Some (digits_value t 0) else None)"

text \<open>
  \<^verbatim>\<open>setCache\<close>: a failing write is caught, and so is the refusal of the time to live.
\<close>

definition setCache :: "'db env \<Rightarrow> string \<Rightarrow> json \<Rightarrow> json \<Rightarrow> 'db hub \<Rightarrow> 'db hub" where
  "setCache env key data ttl s =
     (let s' = s\<lparr>redis_calls := redis_calls s + 1\<rparr> in
      if redis_fault env (redis_calls s) then s'
      else case parse_ttl (to_string ttl) of
             None \<Rightarrow> s'
           | Some n \<Rightarrow> s'\<lparr>redis := redis_setex key n data (redis s)\<rparr>)"

text \<open>
  \<^verbatim>\<open>invalidateEntityCache\<close>: nothing is caught here, a failing command raises.
\<close>

definition invalidateEntityCache ::
  "'db env \<Rightarrow> json option \<Rightarrow> json option \<Rightarrow> 'db hub \<Rightarrow> error option \<times> 'db hub" where
  "invalidateEntityCache env entity ident s =
     (let pattern =
            (if truthy_opt ident
             then cache_prefix @ ''*'' @ to_string_opt entity @ ''*'' @ to_string_opt ident @ ''*''
             else cache_prefix @ ''*'' @ to_string_opt entity @ ''*'');
          s1 = s\<lparr>redis_calls := redis_calls s + 1\<rparr>
      in if redis_fault env (redis_calls s) then (Some CacheError, s1)
         else let keys = redis_keys pattern (redis s) in
              if 0 < length keys then
                (let s2 = s1\<lparr>redis_calls := redis_calls s1 + 1\<rparr> in
                 if redis_fault env (redis_calls s1) then (Some CacheError, s2)
                 else (None, s2\<lparr>redis := redis_del keys (redis s)\<rparr>))
              else (None, s1))"

subsection \<open>Metrics\<close>

definition updateQueryMetrics :: "nat \<Rightarrow> metrics \<Rightarrow> metrics" where
  "updateQueryMetrics queryTime m =
     (let total = totalQueries m + 1 in
      m\<lparr>totalQueries := total,
        avgQueryTime :=
          double_div
            (double_add (double_mul (avgQueryTime m) (of_nat (total - 1))) (of_nat queryTime))
            (of_nat total)\<rparr>)"

text \<open>\<^verbatim>\<open>getPerformanceMetrics\<close>: the counters and the derived ratio (no timestamp).\<close>

definition getPerformanceMetrics :: "'db hub \<Rightarrow> performance_metrics" where
  "getPerformanceMetrics s =
     (let m = hub_metrics s in
      \<lparr>queryCount = queryCount m, cacheHits = cacheHits m, cacheMisses = cacheMisses m,
       avgQueryTime = avgQueryTime m, totalQueries = totalQueries m,
       cacheHitRatio =
         (if 0 < totalQueries m
          then double_mul (double_div (of_nat (cacheHits m)) (of_nat (totalQueries m))) 100
          else 0)\<rparr>)"

section \<open>Data Management Hub: query\<close>

text \<open>
  A \<^verbatim>\<open>forEach\<close> whose callback may raise stops at the first error.
\<close>

fun collect :: "(error + 'a) list \<Rightarrow> error + 'a list" where
  "collect [] = Inr []"
| "collect (Inl e # xs) = Inl e"
| "collect (Inr x # xs) = (case collect xs of Inl e \<Rightarrow> Inl e | Inr ys \<Rightarrow> Inr (x # ys))"

text \<open>
  \<^verbatim>\<open>Object.entries\<close> of a value that is neither null nor undefined (a string
  gives its bytes).
\<close>

fun entries :: "json \<Rightarrow> (string \<times> json) list" where
  "entries (JObj kvs) = kvs"
| "entries (JArr xs) = zip (map string_of_nat [0 ..< length xs]) xs"
| "entries (JStr s) = zip (map string_of_nat [0 ..< length s]) (map (\<lambda>c. JStr [c]) s)"
| "entries v = []"

text \<open>
  One filter: a list gives a membership test, an object with a truthy
  \<^verbatim>\<open>operator\<close> a comparison, anything else an equality. \<^verbatim>\<open>typeof null\<close> is
  \<^verbatim>\<open>'object'\<close>, so reading \<^verbatim>\<open>value.operator\<close> of a null filter raises.
\<close>

fun filter_clause :: "string \<Rightarrow> nat \<times> string \<times> json \<Rightarrow> error + clause" where
  "filter_clause entity (index, key, JArr xs) = Inr (AndWhereIn entity key index (JArr xs))"
| "filter_clause entity (index, key, JNull) = Inl TypeError"
| "filter_clause entity (index, key, JObj kvs) =
     (case field ''operator'' (JObj kvs) of
        None \<Rightarrow> Inr (AndWhereEq entity key index (JObj kvs))
      | Some operator \<Rightarrow>
          if truthy operator
          then Inr (AndWhereOp entity key operator index (field ''value'' (JObj kvs)))
          else Inr (AndWhereEq entity key index (JObj kvs)))"
| "filter_clause entity (index, key, v) = Inr (AndWhereEq entity key index v)"

definition relation_clauses :: "string \<Rightarrow> json \<Rightarrow> error + clause list" where
  "relation_clauses entity q =
     (case field ''relations'' q of
        None \<Rightarrow> Inr []
      | Some r \<Rightarrow>
          if \<not> truthy r then Inr []
          else (case r of
                  JArr rs \<Rightarrow> Inr (map (LeftJoinAndSelect entity) rs)
                | _ \<Rightarrow> Inl TypeError))"

definition filter_clauses :: "string \<Rightarrow> json \<Rightarrow> error + clause list" where
  "filter_clauses entity q =
     (case field ''filters'' q of
        None \<Rightarrow> Inr []
      | Some f \<Rightarrow>
          if \<not> truthy f then Inr []
          else collect (map (filter_clause entity) (enumerate 0 (entries f))))"

definition order_clauses :: "string \<Rightarrow> json \<Rightarrow> clause list" where
  "order_clauses entity q =
     (case field ''orderBy'' q of
        None \<Rightarrow> []
      | Some ob \<Rightarrow>
          if \<not> truthy ob then []
          else map (\<lambda>(fld, direction). AddOrderBy entity fld direction) (entries ob))"

definition page_clauses :: "json \<Rightarrow> clause list" where
  "page_clauses q =
     (case field ''limit'' q of
        None \<Rightarrow> []
      | Some l \<Rightarrow> if truthy l then [Take l] else [])
     @ (case field ''offset'' q of
          None \<Rightarrow> []
        | Some off \<Rightarrow> if truthy off then [Skip off] else [])"

text \<open>The query builder: joins, filters, ordering, pagination, in this order.\<close>

definition build_query :: "string \<Rightarrow> json \<Rightarrow> error + clause list" where
  "build_query entity q =
     (case relation_clauses entity q of
        Inl e \<Rightarrow> Inl e
      | Inr joins \<Rightarrow>
          (case filter_clauses entity q of
             Inl e \<Rightarrow> Inl e
           | Inr wheres \<Rightarrow> Inr (joins @ wheres @ order_clauses entity q @ page_clauses q)))"

definition caching :: "json \<Rightarrow> bool" where
  "caching q = (field ''cache'' q \<noteq> Some (JBool False))"

definition cache_ttl :: "json \<Rightarrow> json" where
  "cache_ttl q =
     (case field ''cacheTTL'' q of
        None \<Rightarrow> JNum default_ttl
      | Some t \<Rightarrow> if truthy t then t else JNum default_ttl)"

definition bump_queryCount :: "'db hub \<Rightarrow> 'db hub" where
  "bump_queryCount s =
     s\<lparr>hub_metrics := (hub_metrics s)\<lparr>queryCount := queryCount (hub_metrics s) + 1\<rparr>\<rparr>"

definition bump_cacheHits :: "'db hub \<Rightarrow> 'db hub" where
  "bump_cacheHits s =
     s\<lparr>hub_metrics := (hub_metrics s)\<lparr>cacheHits := cacheHits (hub_metrics s) + 1\<rparr>\<rparr>"

definition bump_cacheMisses :: "'db hub \<Rightarrow> 'db hub" where
  "bump_cacheMisses s =
     s\<lparr>hub_metrics := (hub_metrics s)\<lparr>cacheMisses := cacheMisses (hub_metrics s) + 1\<rparr>\<rparr>"

text \<open>
  The part of \<^verbatim>\<open>query\<close> after the cache check: repository lookup, query building,
  execution, cache write, metrics and the \<^verbatim>\<open>data.accessed\<close> event. \<open>n\<close> numbers the
  query for the measured time.
\<close>

definition run_query :: "'db env \<Rightarrow> nat \<Rightarrow> json \<Rightarrow> 'db hub \<Rightarrow> (error + json) \<times> 'db hub" where
  "run_query env n q s =
     (case getRepository (field ''entity'' q) of
        None \<Rightarrow> (Inl (RepositoryNotFound (field ''entity'' q)), s)
      | Some entity \<Rightarrow>
          (case build_query entity q of
             Inl e \<Rightarrow> (Inl e, s)
           | Inr clauses \<Rightarrow>
               (let s1 = s\<lparr>storage_reads := storage_reads s + 1\<rparr> in
                case getMany env entity clauses (db s1) of
                  Inl e \<Rightarrow> (Inl e, s1)
                | Inr results \<Rightarrow>
                    (let s2 = (if caching q
                               then setCache env (generateCacheKey ''query'' q) (JArr results)
                                      (cache_ttl q) s1
                               else s1);
                         queryTime = elapsed env n;
                         s3 = s2\<lparr>hub_metrics := updateQueryMetrics queryTime (hub_metrics s2)\<rparr>;
                         s4 = s3\<lparr>events :=
                                   events s3 @ [DataAccessed entity (length results) queryTime]\<rparr>
                     in (Inr (JArr results), s4)))))"

text \<open>
  \<^verbatim>\<open>query\<close>. Reading \<^verbatim>\<open>query.cache\<close> of null raises; the error handler logs and
  raises the same error again.
\<close>

definition query :: "'db env \<Rightarrow> json \<Rightarrow> 'db hub \<Rightarrow> (error + json) \<times> 'db hub" where
  "query env q s =
     (let s1 = bump_queryCount s in
      if q = JNull then (Inl TypeError, s1)
      else if caching q then
        (case getFromCache env (generateCacheKey ''query'' q) s1 of
           (cached, s2) \<Rightarrow>
             if truthy cached then (Inr cached, bump_cacheHits s2)
             else run_query env (queryCount (hub_metrics s)) q (bump_cacheMisses s2))
      else run_query env (queryCount (hub_metrics s)) q s1)"

section \<open>Data Management Hub: mutate\<close>

text \<open>\<^verbatim>\<open>mutation.data.id\<close>: raises when the data is null or undefined.\<close>

fun data_id :: "json option \<Rightarrow> error + json option" where
  "data_id None = Inl TypeError"
| "data_id (Some JNull) = Inl TypeError"
| "data_id (Some v) = Inr (field ''id'' v)"

text \<open>\<^verbatim>\<open>mutation.options?.name\<close> as a condition.\<close>

definition option_flag :: "string \<Rightarrow> json \<Rightarrow> bool" where
  "option_flag name m =
     (case field ''options'' m of
        None \<Rightarrow> False
      | Some opts \<Rightarrow> truthy_opt (field name opts))"

text \<open>
  \<^verbatim>\<open>validateEntityRelations\<close>, \<^verbatim>\<open>createAuditEntry\<close> and
  \<^verbatim>\<open>syncRealTimeData\<close> have empty bodies: they raise nothing and change nothing.
\<close>

definition validateEntityRelations :: "json option \<Rightarrow> json option \<Rightarrow> error option" where
  "validateEntityRelations dat entity = None"

text \<open>
  The query runner of a \<^verbatim>\<open>mutate\<close> call. Its state is the transaction that is open
  on it, if any, with the content this transaction sees: the committed content and the
  transaction's own writes. \<^verbatim>\<open>startTransaction\<close> opens a transaction, which sees
  the committed content. \<^verbatim>\<open>commitTransaction\<close> makes the transaction's content the committed one
  and ends the transaction; when the commit fails the transaction stays open.
  \<^verbatim>\<open>rollbackTransaction\<close> ends the transaction and drops its content.
  \<^verbatim>\<open>release\<close> gives the connection back: a transaction that is still open then
  stays open with its writes.
\<close>

type_synonym 'db query_runner = "'db option"

definition startTransaction :: "'db hub \<Rightarrow> 'db" where
  "startTransaction s = db s"

definition commitTransaction ::
  "'db env \<Rightarrow> 'db query_runner \<Rightarrow> 'db hub \<Rightarrow> error option \<times> 'db query_runner \<times> 'db hub" where
  "commitTransaction env qr s =
     (case qr of
        None \<Rightarrow> (Some TransactionNotStarted, None, s)
      | Some w \<Rightarrow>
          (case commit env w of
             Some e \<Rightarrow> (Some e, Some w, s)
           | None \<Rightarrow> (None, None, s\<lparr>db := w\<rparr>)))"

definition rollbackTransaction ::
  "'db env \<Rightarrow> 'db query_runner \<Rightarrow> error option \<times> 'db query_runner" where
  "rollbackTransaction env qr =
     (case qr of
        None \<Rightarrow> (rollback_inactive env, None)
      | Some w \<Rightarrow> (None, None))"

definition release :: "'db query_runner \<Rightarrow> 'db hub \<Rightarrow> 'db hub" where
  "release qr s =
     (case qr of
        None \<Rightarrow> s
      | Some w \<Rightarrow> s\<lparr>open_transactions := open_transactions s @ [w]\<rparr>)"

text \<open>
  The switch over the operation, on the content \<open>w\<close> the transaction sees. The result
  comes with the content the operation leaves, also when it is an error: the update of a
  row is in the transaction when the read-back of the row fails.
\<close>

definition dispatch :: "'db env \<Rightarrow> json \<Rightarrow> 'db \<Rightarrow> (error + json) \<times> 'db" where
  "dispatch env m w =
     (let entity = field ''entity'' m; dat = field ''data'' m; operation = field ''operation'' m
      in if operation = Some (JStr ''create'') then
           (case repo_create env entity dat of
              Inl e \<Rightarrow> (Inl e, w)
            | Inr ent \<Rightarrow> repo_save env entity (Some ent) w)
         else if operation = Some (JStr ''update'') then
           (case data_id dat of
              Inl e \<Rightarrow> (Inl e, w)
            | Inr i \<Rightarrow>
                (case repo_update env entity i dat w of
                   (Inl e, w') \<Rightarrow> (Inl e, w')
                 | (Inr u, w') \<Rightarrow> repo_findOne env entity i w'))
         else if operation = Some (JStr ''delete'') then
           (case data_id dat of
              Inl e \<Rightarrow> (Inl e, w)
            | Inr i \<Rightarrow>
                (case repo_delete env entity i w of
                   (Inl e, w') \<Rightarrow> (Inl e, w')
                 | (Inr affected, w') \<Rightarrow>
                     (Inr (JObj (case affected of None \<Rightarrow> [] | Some a \<Rightarrow> [(''affected'', a)])),
                      w')))
         else if operation = Some (JStr ''upsert'') then repo_save env entity dat w
         else (Inl (UnsupportedOperation operation), w))"

text \<open>
  The body of the transaction up to the commit: reading the mutation (null has no
  properties), the relation validation when it is asked for, and the switch.
\<close>

definition transaction_body :: "'db env \<Rightarrow> json \<Rightarrow> 'db \<Rightarrow> (error + json) \<times> 'db" where
  "transaction_body env m w =
     (if m = JNull then (Inl TypeError, w)
      else case (if option_flag ''validateRelations'' m
                 then validateEntityRelations (field ''data'' m) (field ''entity'' m)
                 else None) of
             Some e \<Rightarrow> (Inl e, w)
           | None \<Rightarrow> dispatch env m w)"

text \<open>
  \<^verbatim>\<open>mutation.data\<close> as it is after the switch. \<^verbatim>\<open>save\<close> works on the object it
  is given, writes the generated columns into it and returns it, so after an upsert
  \<^verbatim>\<open>mutation.data\<close> is the saved object. \<^verbatim>\<open>create\<close> saves a copy, and the other
  operations do not write to their arguments.
\<close>

definition data_after :: "json \<Rightarrow> json \<Rightarrow> json option" where
  "data_after m result =
     (if field ''operation'' m = Some (JStr ''upsert'') then
        (case field ''data'' m of
           Some (JObj kvs) \<Rightarrow> Some result
         | Some (JArr xs) \<Rightarrow> Some result
         | d \<Rightarrow> d)
      else field ''data'' m)"

text \<open>
  The steps after the commit, still inside the \<^verbatim>\<open>try\<close> block: cache invalidation and
  the \<^verbatim>\<open>data.mutated\<close> event.
\<close>

definition after_commit ::
  "'db env \<Rightarrow> json \<Rightarrow> json \<Rightarrow> 'db hub \<Rightarrow> error option \<times> 'db hub" where
  "after_commit env m result s =
     (case data_id (data_after m result) of
        Inl e \<Rightarrow> (Some e, s)
      | Inr i \<Rightarrow>
          (case invalidateEntityCache env (field ''entity'' m) i s of
             (Some e, s1) \<Rightarrow> (Some e, s1)
           | (None, s1) \<Rightarrow>
               (None, s1\<lparr>events := events s1 @
                   [DataMutated (field ''entity'' m) (field ''operation'' m)
                      (data_after m result) result]\<rparr>)))"

text \<open>
  The handler of \<^verbatim>\<open>mutate\<close> and its \<^verbatim>\<open>finally\<close> block: roll back, raise the
  error again (the error of the rollback, if the rollback raises), release the runner.
\<close>

definition mutate_handler ::
  "'db env \<Rightarrow> error \<Rightarrow> 'db query_runner \<Rightarrow> 'db hub \<Rightarrow> (error + json) \<times> 'db hub" where
  "mutate_handler env e qr s =
     (case rollbackTransaction env qr of
        (Some e', qr') \<Rightarrow> (Inl e', release qr' s)
      | (None, qr') \<Rightarrow> (Inl e, release qr' s))"

text \<open>
  \<^verbatim>\<open>mutate\<close>: start a transaction, run the body on the content the transaction
  sees, commit, run the steps after the commit, release the runner. Every error raised on
  the way reaches the handler, with the runner as the failing step left it.
\<close>

definition mutate :: "'db env \<Rightarrow> json \<Rightarrow> 'db hub \<Rightarrow> (error + json) \<times> 'db hub" where
  "mutate env m s =
     (case transaction_body env m (startTransaction s) of
        (Inl e, w) \<Rightarrow> mutate_handler env e (Some w) s
      | (Inr result, w) \<Rightarrow>
          (case commitTransaction env (Some w) s of
             (Some e, qr, s1) \<Rightarrow> mutate_handler env e qr s1
           | (None, qr, s1) \<Rightarrow>
               (case after_commit env m result s1 of
                  (Some e, s2) \<Rightarrow> mutate_handler env e qr s2
                | (None, s2) \<Rightarrow> (Inr result, release qr s2))))"

section \<open>Data Management Hub: analytics and cache management\<close>

definition executeAnalyticsQuery :: "json \<Rightarrow> json" where
  "executeAnalyticsQuery q = JObj [(''placeholder'', JStr ''Analytics results would be here'')]"

definition analytics :: "'db env \<Rightarrow> json \<Rightarrow> 'db hub \<Rightarrow> (error + json) \<times> 'db hub" where
  "analytics env q s =
     (case getFromCache env (generateCacheKey ''analytics'' q) s of
        (cached, s1) \<Rightarrow>
          if truthy cached then (Inr cached, s1)
          else (let results = executeAnalyticsQuery q
                in (Inr results,
                    setCache env (generateCacheKey ''analytics'' q) results (JNum 7200) s1)))"

text \<open>\<^verbatim>\<open>clearCache\<close>: the whole body is inside a handler that only logs.\<close>

definition clearCache :: "'db env \<Rightarrow> string option \<Rightarrow> 'db hub \<Rightarrow> 'db hub" where
  "clearCache env pattern s =
     (let searchPattern =
            (case pattern of
               None \<Rightarrow> cache_prefix @ ''*''
             | Some p \<Rightarrow> if p \<noteq> [] then p else cache_prefix @ ''*'');
          s1 = s\<lparr>redis_calls := redis_calls s + 1\<rparr>
      in if redis_fault env (redis_calls s) then s1
         else let keys = redis_keys searchPattern (redis s) in
              if 0 < length keys then
                (let s2 = s1\<lparr>redis_calls := redis_calls s1 + 1\<rparr> in
                 if redis_fault env (redis_calls s1) then s2
                 else s2\<lparr>redis := redis_del keys (redis s)\<rparr>)
              else s1)"

section \<open>Data Context Provider\<close>

datatype cache_strategy = Aggressive | Moderate | Minimal

record ModuleDataRequirements =
  primary :: "string list"
  secondary :: "string list"
  relations :: "string list"
  permissions :: "string list"
  cacheStrategy :: cache_strategy
  realTimeSync :: bool

record DataContext =
  userId :: string
  userRole :: string
  module :: string
  action :: string
  entityId :: "string option"
  filters :: "json option"

text \<open>\<^verbatim>\<open>initializeModuleRequirements\<close>: the registry, one entry per module.\<close>

definition moduleRequirements :: "(string \<times> ModuleDataRequirements) list" where
  "moduleRequirements =
     [(''client-portal'',
        \<lparr>primary = [''Client'', ''Case'', ''Document''],
         secondary = [''Message'', ''Payment'', ''Notification''],
         relations = [''client.cases'', ''case.documents'', ''client.payments''],
         permissions = [''client.read'', ''case.read'', ''document.read''],
         cacheStrategy = Aggressive, realTimeSync = True\<rparr>),
      (''ai-assistant'',
        \<lparr>primary = [''Case'', ''Document'', ''Client''],
         secondary = [''LegalQuery'', ''ResearchTask''],
         relations = [''case.client'', ''document.case''],
         permissions = [''ai.query'', ''document.analyze''],
         cacheStrategy = Moderate, realTimeSync = False\<rparr>),
      (''document-management'',
        \<lparr>primary = [''Document'', ''Case'', ''Client''],
         secondary = [''DocumentVersion'', ''Comment''],
         relations = [''document.case'', ''document.versions'', ''case.client''],
         permissions = [''document.read'', ''document.write''],
         cacheStrategy = Moderate, realTimeSync = True\<rparr>),
      (''legal-research'',
        \<lparr>primary = [''ResearchTask'', ''CaseLaw'', ''Statute''],
         secondary = [''Citation'', ''LegalDatabase''],
         relations = [''research.citations'', ''task.assignee''],
         permissions = [''research.read'', ''research.create''],
         cacheStrategy = Aggressive, realTimeSync = False\<rparr>),
      (''workflow-automation'',
        \<lparr>primary = [''Workflow'', ''Task'', ''Case''],
         secondary = [''WorkflowStep'', ''Automation''],
         relations = [''workflow.tasks'', ''task.case''],
         permissions = [''workflow.read'', ''workflow.execute''],
         cacheStrategy = Minimal, realTimeSync = True\<rparr>),
      (''integration-management'',
        \<lparr>primary = [''Integration'', ''ApiKey'', ''Webhook''],
         secondary = [''IntegrationLog'', ''SyncStatus''],
         relations = [''integration.logs'', ''apikey.usage''],
         permissions = [''integration.read'', ''api.manage''],
         cacheStrategy = Moderate, realTimeSync = True\<rparr>),
      (''entity-management'',
        \<lparr>primary = [''Entity'', ''CorporateEvent'', ''ComplianceRecord''],
         secondary = [''Filing'', ''EntityRelation''],
         relations = [''entity.events'', ''entity.compliance''],
         permissions = [''entity.read'', ''entity.manage''],
         cacheStrategy = Moderate, realTimeSync = True\<rparr>)]"

text \<open>
  The provider's state: the hub it calls and its own \<^verbatim>\<open>userContextCache\<close>, a map
  from string keys to values of any kind.
\<close>

record 'db provider =
  hub :: "'db hub"
  userContextCache :: "(string \<times> json) list"

text \<open>
  \<^verbatim>\<open>validateUserPermissions\<close> has an empty body (the source calls it a placeholder for
  permission validation): it raises nothing for any context and any requirements.
\<close>

definition validateUserPermissions :: "DataContext \<Rightarrow> ModuleDataRequirements \<Rightarrow> error option" where
  "validateUserPermissions ctx requirements = None"

definition defaultPreferences :: json where
  "defaultPreferences =
     JObj [(''defaultPageSize'', JNum 25),
           (''preferredOrderBy'', JObj [(''createdAt'', JStr ''DESC'')]),
           (''hiddenFields'', JArr []),
           (''favoriteFilters'', JObj []),
           (''autoRefresh'', JBool True),
           (''realTimeNotifications'', JBool True)]"

definition getUserPreferences :: "string \<Rightarrow> 'db provider \<Rightarrow> json \<times> 'db provider" where
  "getUserPreferences uid st =
     (let key = ''preferences:'' @ uid in
      case map_of (userContextCache st) key of
        None \<Rightarrow>
          (defaultPreferences,
           st\<lparr>userContextCache := AList.update key defaultPreferences (userContextCache st)\<rparr>)
      | Some cached \<Rightarrow>
          if truthy cached then (cached, st)
          else (defaultPreferences,
                st\<lparr>userContextCache :=
                     AList.update key defaultPreferences (userContextCache st)\<rparr>))"

text \<open>An object literal: a property whose value is undefined is left out.\<close>

definition obj :: "(string \<times> json option) list \<Rightarrow> json" where
  "obj kvs = JObj (concat (map (\<lambda>(k, v). case v of None \<Rightarrow> [] | Some x \<Rightarrow> [(k, x)]) kvs))"

text \<open>The spread \<^verbatim>\<open>push(...data)\<close> of a query result.\<close>

fun spread :: "json \<Rightarrow> error + json list" where
  "spread (JArr xs) = Inr xs"
| "spread (JStr s) = Inr (map (\<lambda>c. JStr [c]) s)"
| "spread v = Inl TypeError"

text \<open>
  \<^verbatim>\<open>Math.min(preferences.defaultPageSize, 10)\<close>. The page size is a number in every
  preferences object the provider creates; for any other value the result stands for
  \<^verbatim>\<open>NaN\<close>, which serialises as null and is falsy.
\<close>

fun min_page_size :: "json option \<Rightarrow> json" where
  "min_page_size (Some (JNum n)) = JNum (min n 10)"
| "min_page_size v = JNull"

fun getPrimaryData ::
  "'db env \<Rightarrow> DataContext \<Rightarrow> ModuleDataRequirements \<Rightarrow> json \<Rightarrow> string list \<Rightarrow> json list \<Rightarrow>
   'db hub \<Rightarrow> (error + json list) \<times> 'db hub" where
  "getPrimaryData env ctx requirements preferences [] allPrimaryData h = (Inr allPrimaryData, h)"
| "getPrimaryData env ctx requirements preferences (entity # rest) allPrimaryData h =
     (case query env
             (obj [(''entity'', Some (JStr entity)),
                   (''filters'', filters ctx),
                   (''limit'', field ''defaultPageSize'' preferences),
                   (''orderBy'', field ''preferredOrderBy'' preferences),
                   (''cache'', Some (JBool (cacheStrategy requirements \<noteq> Minimal)))]) h of
        (Inl e, h') \<Rightarrow> (Inl e, h')
      | (Inr data, h') \<Rightarrow>
          (case spread data of
             Inl e \<Rightarrow> (Inl e, h')
           | Inr rows \<Rightarrow>
               getPrimaryData env ctx requirements preferences rest (allPrimaryData @ rows) h'))"

fun getSecondaryData ::
  "'db env \<Rightarrow> DataContext \<Rightarrow> ModuleDataRequirements \<Rightarrow> json \<Rightarrow> string list \<Rightarrow> json list \<Rightarrow>
   'db hub \<Rightarrow> (error + json list) \<times> 'db hub" where
  "getSecondaryData env ctx requirements preferences [] allSecondaryData h =
     (Inr allSecondaryData, h)"
| "getSecondaryData env ctx requirements preferences (entity # rest) allSecondaryData h =
     (case query env
             (obj [(''entity'', Some (JStr entity)),
                   (''filters'', filters ctx),
                   (''limit'', Some (min_page_size (field ''defaultPageSize'' preferences))),
                   (''cache'', Some (JBool True))]) h of
        (Inl e, h') \<Rightarrow> (Inl e, h')
      | (Inr data, h') \<Rightarrow>
          (case spread data of
             Inl e \<Rightarrow> (Inl e, h')
           | Inr rows \<Rightarrow>
               getSecondaryData env ctx requirements preferences rest (allSecondaryData @ rows)
                 h'))"

text \<open>
  \<^verbatim>\<open>buildMetadata\<close>, without the expiry date. It reads the preferences again.
\<close>

definition buildMetadata ::
  "DataContext \<Rightarrow> json list \<Rightarrow> ModuleDataRequirements \<Rightarrow> 'db provider \<Rightarrow> json \<times> 'db provider" where
  "buildMetadata ctx primaryData requirements st =
     (case getUserPreferences (userId ctx) st of
        (preferences, st') \<Rightarrow>
          (JObj [(''totalCount'', JNum (of_nat (length primaryData))),
                 (''hasMore'',
                    JBool (field ''defaultPageSize'' preferences
                             = Some (JNum (of_nat (length primaryData))))),
                 (''cacheInfo'', JObj [(''cached'', JBool (cacheStrategy requirements \<noteq> Minimal))]),
                 (''permissions'', JArr (map JStr (permissions requirements))),
                 (''suggestedActions'',
                    JArr [JStr ''view'', JStr ''edit'', JStr ''delete'', JStr ''share''])],
           st'))"

text \<open>
  \<^verbatim>\<open>updateUserContext\<close>: the stored object is the old one overwritten by the new
  properties (the two dates are left out).
\<close>

definition merge_props :: "(string \<times> json) list \<Rightarrow> (string \<times> json) list \<Rightarrow> (string \<times> json) list" where
  "merge_props old new = foldl (\<lambda>acc (k, v). AList.update k v acc) old new"

definition updateUserContext :: "string \<Rightarrow> string \<Rightarrow> (string \<times> json) list \<Rightarrow> 'db provider \<Rightarrow> 'db provider" where
  "updateUserContext uid mdl contextData st =
     (let key = ''context:'' @ uid @ '':'' @ mdl;
          old = (case map_of (userContextCache st) key of
                   None \<Rightarrow> []
                 | Some JNull \<Rightarrow> []
                 | Some v \<Rightarrow> entries v)
      in st\<lparr>userContextCache :=
              AList.update key (JObj (merge_props old contextData)) (userContextCache st)\<rparr>)"

text \<open>
  \<^verbatim>\<open>getModuleData\<close>. The related data is the empty list and the predictive prefetch
  calls only functions with empty bodies, so neither touches the state.
\<close>

definition getModuleData ::
  "'db env \<Rightarrow> DataContext \<Rightarrow> 'db provider \<Rightarrow> (error + json) \<times> 'db provider" where
  "getModuleData env ctx st =
     (case map_of moduleRequirements (module ctx) of
        None \<Rightarrow> (Inl (ModuleRequirementsNotFound (module ctx)), st)
      | Some requirements \<Rightarrow>
          (case validateUserPermissions ctx requirements of
             Some e \<Rightarrow> (Inl e, st)
           | None \<Rightarrow>
               (case getUserPreferences (userId ctx) st of
                  (preferences, st1) \<Rightarrow>
                    (case getPrimaryData env ctx requirements preferences (primary requirements)
                            [] (hub st1) of
                       (Inl e, h) \<Rightarrow> (Inl e, st1\<lparr>hub := h\<rparr>)
                     | (Inr primaryData, h1) \<Rightarrow>
                         (case getSecondaryData env ctx requirements preferences
                                 (secondary requirements) [] h1 of
                            (Inl e, h) \<Rightarrow> (Inl e, st1\<lparr>hub := h\<rparr>)
                          | (Inr secondaryData, h2) \<Rightarrow>
                              (case buildMetadata ctx primaryData requirements (st1\<lparr>hub := h2\<rparr>) of
                                 (metadata, st2) \<Rightarrow>
                                   (Inr (JObj [(''primary'', JArr primaryData),
                                               (''secondary'', JArr secondaryData),
                                               (''related'', JArr []),
                                               (''metadata'', metadata)]),
                                    updateUserContext (userId ctx) (module ctx)
                                      [(''preferences'', preferences),
                                       (''frequentActions'',
                                          JArr [JStr ''view'', JStr ''create'', JStr ''search'',
                                                JStr ''edit''])]
                                      st2)))))))"

section \<open>Module adapters\<close>

datatype adapter = ClientPortalDataAdapter | AIAssistantDataAdapter | DocumentManagementDataAdapter

text \<open>\<^verbatim>\<open>initializeAdapters\<close> and \<^verbatim>\<open>getAdapter\<close> of the adapter factory.\<close>

definition adapters :: "(string \<times> adapter) list" where
  "adapters =
     [(''client-portal'', ClientPortalDataAdapter),
      (''ai-assistant'', AIAssistantDataAdapter),
      (''document-management'', DocumentManagementDataAdapter)]"

definition getAdapter :: "string \<Rightarrow> adapter option" where
  "getAdapter moduleName = map_of adapters moduleName"

section \<open>An in-memory storage engine\<close>

text \<open>
  A small storage engine for running the hub on concrete inputs: the store maps an entity
  name to its rows, a select query returns every row of its entity, \<^verbatim>\<open>save\<close> appends
  the row, \<^verbatim>\<open>update\<close>, \<^verbatim>\<open>findOne\<close> and \<^verbatim>\<open>delete\<close> go by the row's
  \<^verbatim>\<open>id\<close>. The cache store never fails, a commit always succeeds, and
  \<^verbatim>\<open>rollbackTransaction\<close> on a transaction that is no longer active raises, as
  TypeORM's does.
\<close>

type_synonym mem_db = "(string \<times> json list) list"

definition mem_rows :: "string \<Rightarrow> mem_db \<Rightarrow> json list" where
  "mem_rows entity d = (case map_of d entity of None \<Rightarrow> [] | Some rows \<Rightarrow> rows)"

definition has_id :: "json option \<Rightarrow> json \<Rightarrow> bool" where
  "has_id i row = (i \<noteq> None \<and> field ''id'' row = i)"

definition mem_save ::
  "json option \<Rightarrow> json option \<Rightarrow> mem_db \<Rightarrow> (error + json) \<times> mem_db" where
  "mem_save entity dat d =
     (case (entity, dat) of
        (Some (JStr e), Some row) \<Rightarrow> (Inr row, AList.update e (mem_rows e d @ [row]) d)
      | _ \<Rightarrow> (Inl (StorageError ''save''), d))"

definition mem_update ::
  "json option \<Rightarrow> json option \<Rightarrow> json option \<Rightarrow> mem_db \<Rightarrow> (error + unit) \<times> mem_db" where
  "mem_update entity i dat d =
     (case (entity, dat) of
        (Some (JStr e), Some row) \<Rightarrow>
          (Inr (), AList.update e (map (\<lambda>r. if has_id i r then row else r) (mem_rows e d)) d)
      | _ \<Rightarrow> (Inl (StorageError ''update''), d))"

definition mem_findOne ::
  "json option \<Rightarrow> json option \<Rightarrow> mem_db \<Rightarrow> (error + json) \<times> mem_db" where
  "mem_findOne entity i d =
     (case entity of
        Some (JStr e) \<Rightarrow>
          (Inr (case filter (has_id i) (mem_rows e d) of [] \<Rightarrow> JNull | r # rs \<Rightarrow> r), d)
      | _ \<Rightarrow> (Inl (StorageError ''findOne''), d))"

definition mem_delete ::
  "json option \<Rightarrow> json option \<Rightarrow> mem_db \<Rightarrow> (error + json option) \<times> mem_db" where
  "mem_delete entity i d =
     (case entity of
        Some (JStr e) \<Rightarrow>
          (Inr (Some (JNum (of_nat (length (filter (has_id i) (mem_rows e d)))))),
           AList.update e (filter (\<lambda>r. \<not> has_id i r) (mem_rows e d)) d)
      | _ \<Rightarrow> (Inl (StorageError ''delete''), d))"

definition mem_env :: "mem_db env" where
  "mem_env =
     \<lparr>redis_fault = (\<lambda>n. False),
      elapsed = (\<lambda>n. 0),
      getMany = (\<lambda>entity clauses d. Inr (mem_rows entity d)),
      repo_create = (\<lambda>entity dat. Inr (case dat of None \<Rightarrow> JObj [] | Some v \<Rightarrow> v)),
      repo_save = mem_save,
      repo_update = mem_update,
      repo_findOne = mem_findOne,
      repo_delete = mem_delete,
      commit = (\<lambda>d. None),
      rollback_inactive = Some TransactionNotStarted\<rparr>"

section \<open>Predicates and scenarios\<close>

text \<open>
  The failure of the transactional body of \<^verbatim>\<open>mutate\<close>, if any: the error of the first
  failing stage among relation validation, the operation's storage calls and the commit.
\<close>

definition body_failure :: "'db env \<Rightarrow> json \<Rightarrow> 'db \<Rightarrow> error option" where
  "body_failure env m d =
     (case transaction_body env m d of
        (Inl e, w) \<Rightarrow> Some e
      | (Inr result, w) \<Rightarrow> commit env w)"

text \<open>
  A query is served from the cache when caching is on for it, the cache store answers the
  read, and the entry under the query's key holds a truthy value.
\<close>

definition served_from_cache :: "'db env \<Rightarrow> json \<Rightarrow> 'db hub \<Rightarrow> bool" where
  "served_from_cache env q s =
     (q \<noteq> JNull \<and> caching q \<and> \<not> redis_fault env (redis_calls s) \<and>
      truthy_opt (redis_get (redis s) (generateCacheKey ''query'' q)))"

text \<open>A hub that has counted one cache hit and two executed queries.\<close>

definition half_hit_hub :: "unit hub" where
  "half_hit_hub =
     (initial_hub ())\<lparr>hub_metrics := initial_metrics\<lparr>cacheHits := 1, totalQueries := 2\<rparr>\<rparr>"

text \<open>A hub that has counted seven cache hits and a hundred executed queries.\<close>

definition seven_hit_hub :: "unit hub" where
  "seven_hit_hub =
     (initial_hub ())\<lparr>hub_metrics := initial_metrics\<lparr>cacheHits := 7, totalQueries := 100\<rparr>\<rparr>"

text \<open>A store with one case, and the requests of the scenarios.\<close>

definition row_a :: json where
  "row_a = JObj [(''id'', JNum 1), (''title'', JStr ''Matter A'')]"


definition row_b :: json where
  "row_b = JObj [(''clientId'', JStr ''c1''), (''title'', JStr ''Matter B'')]"

definition case_hub :: "mem_db hub" where
  "case_hub = initial_hub [(''Case'', [row_a])]"

definition q_case :: json where
  "q_case = JObj [(''entity'', JStr ''Case'')]"

definition q_case_cached :: json where
  "q_case_cached = JObj [(''entity'', JStr ''Case''), (''cache'', JBool True)]"

definition q_cached_case :: json where
  "q_cached_case = JObj [(''cache'', JBool True), (''entity'', JStr ''Case'')]"

definition q_case_short_lived :: json where
  "q_case_short_lived =
     JObj [(''entity'', JStr ''Case''), (''cache'', JBool True), (''cacheTTL'', JNum (- 1))]"

definition q_case_uncached :: json where
  "q_case_uncached = JObj [(''entity'', JStr ''Case''), (''cache'', JBool False)]"

definition q_client_active :: json where
  "q_client_active =
     JObj [(''entity'', JStr ''Client''),
           (''filters'', JObj [(''status'', JStr ''ACTIVE'')]),
           (''limit'', JNum 25)]"

definition q_research :: json where
  "q_research = JObj [(''entity'', JStr ''ResearchTask'')]"

definition q_case_limit :: json where
  "q_case_limit = JObj [(''entity'', JStr ''Case''), (''limit'', JNum 5)]"

definition q_limit_case :: json where
  "q_limit_case = JObj [(''limit'', JNum 5), (''entity'', JStr ''Case'')]"

definition m_create :: json where
  "m_create =
     JObj [(''entity'', JStr ''Case''), (''operation'', JStr ''create''), (''data'', row_b)]"


definition m_archive :: json where
  "m_archive =
     JObj [(''entity'', JStr ''Case''), (''operation'', JStr ''archive''), (''data'', row_a)]"

text \<open>The hub after a first query for the cases, and after a case was then created.\<close>

definition hub_after_query :: "mem_db hub" where
  "hub_after_query = snd (query mem_env q_case case_hub)"

definition hub_after_create :: "mem_db hub" where
  "hub_after_create = snd (mutate mem_env m_create hub_after_query)"

definition hub_after_cached_query :: "mem_db hub" where
  "hub_after_cached_query = snd (query mem_env q_case_cached case_hub)"

definition hub_after_short_lived_query :: "mem_db hub" where
  "hub_after_short_lived_query = snd (query mem_env q_case_short_lived case_hub)"

text \<open>
  Two faulty environments: one whose cache store fails on every command, one whose
  storage engine loses the connection when a row is read back.
\<close>

definition down_env :: "mem_db env" where
  "down_env = mem_env\<lparr>redis_fault := (\<lambda>n. True)\<rparr>"


text \<open>
  Two callers of the context provider: a client asking for the legal research module and
  a guest asking for the client portal.
\<close>

definition ctx_research :: DataContext where
  "ctx_research =
     \<lparr>userId = ''u1'', userRole = ''client'', module = ''legal-research'', action = ''view'',
      entityId = None, filters = None\<rparr>"

definition ctx_guest :: DataContext where
  "ctx_guest =
     \<lparr>userId = ''u2'', userRole = ''guest'', module = ''client-portal'', action = ''view'',
      entityId = None, filters = None\<rparr>"

definition case_provider :: "mem_db provider" where
  "case_provider = \<lparr>hub = case_hub, userContextCache = []\<rparr>"

section \<open>Supporting lemmas\<close>

text \<open>
  Numbers as text: samples of \<^verbatim>\<open>Number::toString\<close>, and the two rounded results
  of the metrics: seven hits of a hundred queries give a ratio just above 7, and the
  average of the times 1, 1 and 2 is the double next to four thirds.
\<close>

lemma number_to_string_samples:
  "number_to_string 25 = ''25'' \<and> number_to_string (- 1) = ''-1'' \<and>
   number_to_string 0 = ''0'' \<and>
   number_to_string (1 / 2) = ''0.5'' \<and> number_to_string (10 ^ 21) = ''1e+21'' \<and>
   number_to_string (1 / 10 ^ 7) = ''1e-7'' \<and> number_text 25 = ''25''"
  by code_simp

lemma number_to_string_rounded_ratio:
  "number_to_string (7 + 1 / 2 ^ 50) = ''7.000000000000001''"
  by code_simp

lemma avgQueryTime_rounds:
  "avgQueryTime (updateQueryMetrics 2 (updateQueryMetrics 1 (updateQueryMetrics 1 initial_metrics)))
     = 6004799503160661 / 4503599627370496"
  by code_simp

lemma redis_get_setex: "redis_get (redis_setex k t v st) k = Some v"
  by (simp add: redis_get_def redis_setex_def)

text \<open>A readable, truthy entry under the query's key is returned at once.\<close>

lemma query_hit:
  assumes "q \<noteq> JNull" and "caching q" and "\<not> redis_fault env (redis_calls s)"
    and "redis_get (redis s) (generateCacheKey ''query'' q) = Some v" and "truthy v"
  shows "query env q s =
           (Inr v,
            s\<lparr>hub_metrics := (hub_metrics s)\<lparr>queryCount := queryCount (hub_metrics s) + 1,
                                            cacheHits := cacheHits (hub_metrics s) + 1\<rparr>,
              redis_calls := redis_calls s + 1\<rparr>)"
  using assms
  by (simp add: query_def getFromCache_def bump_queryCount_def bump_cacheHits_def Let_def)

text \<open>Without a select query on the primary store, the storage path changes nothing.\<close>

lemma run_query_unchanged_without_storage:
  assumes "run_query env n q s = (r, s')" and "storage_reads s' = storage_reads s"
  shows "s' = s"
  using assms
  by (auto simp: run_query_def setCache_def Let_def
      split: option.splits sum.splits if_splits json.splits)

text \<open>A query that went to the primary store leaves its result under its key.\<close>

lemma run_query_cached:
  assumes "run_query env n q s = (Inr r, s')" and "caching q"
    and "\<not> redis_fault env (redis_calls s)"
    and "parse_ttl (to_string (cache_ttl q)) = Some t"
  shows "redis_get (redis s') (generateCacheKey ''query'' q) = Some r \<and> truthy r"
  using assms
  by (auto simp: run_query_def setCache_def Let_def redis_get_setex
      split: option.splits sum.splits)

lemma query_leaves_entry:
  assumes "query env q s = (Inr r, s1)" and "q \<noteq> JNull" and "caching q"
    and "\<forall>n. \<not> redis_fault env n" and "parse_ttl (to_string (cache_ttl q)) = Some t"
  shows "redis_get (redis s1) (generateCacheKey ''query'' q) = Some r \<and> truthy r"
proof (cases "truthy (fst (getFromCache env (generateCacheKey ''query'' q) (bump_queryCount s)))")
  case True
  with assms show ?thesis
    by (auto simp: query_def getFromCache_def bump_queryCount_def bump_cacheHits_def Let_def
        split: option.splits if_splits)
next
  case False
  with assms(1-3)
  have "run_query env (queryCount (hub_metrics s)) q
          (bump_cacheMisses
             (snd (getFromCache env (generateCacheKey ''query'' q) (bump_queryCount s))))
        = (Inr r, s1)"
    by (simp add: query_def Let_def split: prod.splits)
  from run_query_cached [OF this assms(3) _ assms(5)] assms(4) show ?thesis by simp
qed

text \<open>
  The handler ends an open transaction: the runner it releases has none, and the state is
  the one it was given. A runner released with its transaction leaves the transaction
  open.
\<close>

lemma mutate_handler_rolls_back: "mutate_handler env e (Some w) s = (Inl e, s)"
  by (simp add: mutate_handler_def rollbackTransaction_def release_def)

lemma release_leaves_transaction_open:
  "open_transactions (release (Some w) s) = open_transactions s @ [w]"
  by (simp add: release_def)

text \<open>When the transactional body and the commit succeed, the writes are committed.\<close>

lemma mutate_commits:
  "body_failure env m (db s) = None \<Longrightarrow>
   \<exists>r w. transaction_body env m (db s) = (Inr r, w) \<and> db (snd (mutate env m s)) = w"
  by (auto simp: body_failure_def mutate_def startTransaction_def commitTransaction_def
      mutate_handler_def rollbackTransaction_def release_def after_commit_def
      invalidateEntityCache_def Let_def
      split: sum.splits prod.splits option.splits)

text \<open>
  The first sixteen Base64 characters depend on the first twelve bytes only, and so does
  the cache key: two requests whose JSON texts agree on twelve bytes share their key. For
  an object that starts with its entity, those bytes end with the first letter of the
  entity's name.
\<close>

lemma base64_take:
  "take (4 * k) (base64 bs) = take (4 * k) (base64 (take (3 * k) bs))"
proof (induction k arbitrary: bs)
  case 0
  then show ?case by simp
next
  case (Suc k)
  have four: "4 * Suc k = Suc (Suc (Suc (Suc (4 * k))))"
    and three: "3 * Suc k = Suc (Suc (Suc (3 * k)))"
    by simp_all
  show ?case
  proof (cases bs rule: base64.cases)
    case (4 a b c rest)
    have "take (4 * k) (base64 rest) = take (4 * k) (base64 (take (3 * k) rest))"
      by (rule Suc.IH)
    with 4 show ?thesis unfolding four three by simp
  qed (simp_all add: three)
qed

lemma generateCacheKey_prefix:
  assumes "take 12 (stringify a) = take 12 (stringify b)"
  shows "generateCacheKey type a = generateCacheKey type b"
proof -
  have "take 16 (base64 (map of_char (stringify a)))
          = take 16 (base64 (take 12 (map of_char (stringify a))))"
    using base64_take [of 4] by simp
  also have "\<dots> = take 16 (base64 (take 12 (map of_char (stringify b))))"
    using assms by (simp add: take_map)
  also have "\<dots> = take 16 (base64 (map of_char (stringify b)))"
    using base64_take [of 4] by simp
  finally show ?thesis by (simp add: generateCacheKey_def)
qed

lemma stringify_entity_prefix:
  assumes "escape_char c = [c]"
  shows "take 12 (stringify (JObj ((''entity'', JStr (c # name)) # rest)))
           = [CHR ''{'', CHR 0x22] @ ''entity'' @ [CHR 0x22, CHR '':'', CHR 0x22, c]"
proof (cases rest)
  case Nil
  with assms show ?thesis by (simp add: quote_def escape_char_def)
next
  case (Cons kv rest')
  with assms show ?thesis by (simp add: quote_def escape_char_def)
qed

lemma generateCacheKey_first_letter:
  assumes "escape_char c = [c]"
  shows "generateCacheKey type (JObj ((''entity'', JStr (c # name)) # rest))
           = generateCacheKey type (JObj [(''entity'', JStr [c])])"
  by (rule generateCacheKey_prefix) (simp only: stringify_entity_prefix [OF assms])

text \<open>
  The errors of a query come from the request or from the primary store, never from the
  cache store, and \<^verbatim>\<open>analytics\<close> always returns a result.
\<close>

lemma filter_clause_error: "filter_clause entity x = Inl e \<Longrightarrow> e = TypeError"
  by (induction entity x rule: filter_clause.induct) (auto split: option.splits if_splits)

lemma collect_error: "collect xs = Inl e \<Longrightarrow> Inl e \<in> set xs"
  by (induction xs rule: collect.induct) (auto split: sum.splits)

lemma build_query_error: "build_query entity q = Inl e \<Longrightarrow> e = TypeError"
  by (auto simp: build_query_def relation_clauses_def filter_clauses_def
      split: sum.splits option.splits if_splits json.splits
      dest!: collect_error filter_clause_error [OF sym])

lemma run_query_error_origin:
  assumes "run_query env n q s = (Inl e, s')"
  shows "e = TypeError \<or> e = RepositoryNotFound (field ''entity'' q) \<or>
         (\<exists>entity clauses. getMany env entity clauses (db s) = Inl e)"
  using assms
  by (auto simp: run_query_def Let_def split: option.splits sum.splits dest: build_query_error)

lemma getFromCache_db: "getFromCache env k s = (v, s') \<Longrightarrow> db s' = db s"
  by (auto simp: getFromCache_def Let_def split: if_splits option.splits)

lemma query_error_origin:
  assumes "query env q s = (Inl e, s')"
  shows "e = TypeError \<or> e = RepositoryNotFound (field ''entity'' q) \<or>
         (\<exists>entity clauses. getMany env entity clauses (db s) = Inl e)"
  using assms
  by (auto simp: query_def Let_def bump_cacheMisses_def bump_queryCount_def
      split: if_splits prod.splits
      dest!: run_query_error_origin getFromCache_db)

lemma analytics_returns: "\<exists>r. fst (analytics env q s) = Inr r"
  by (simp add: analytics_def Let_def split: prod.splits)

text \<open>
  A mutation whose transaction commits fails all the same when the first cache command
  after the commit fails.
\<close>

lemma mutate_fails_when_cache_down:
  assumes "body_failure env m (db s) = None" and "redis_fault env (redis_calls s)"
  shows "\<exists>e. fst (mutate env m s) = Inl e"
  using assms
  by (auto simp: body_failure_def mutate_def startTransaction_def commitTransaction_def
      mutate_handler_def rollbackTransaction_def release_def after_commit_def
      invalidateEntityCache_def Let_def
      split: sum.splits prod.splits option.splits)

section \<open>The claims\<close>

text \<open>
  C1: after a successful mutation of an entity, a query for that entity must not return a
  result cached before the mutation; the invalidation may delete too much, never too
  little. The code deletes too little. The cache key of a query holds Base64 text, not
  the entity name, so the pattern \<^verbatim>\<open>dmh:*Case*\<close> of the invalidation matches no query
  key. The theorem runs the code: a query for the cases is cached, a case is created and
  committed, and the same query still returns the single old case from the cache, while
  the store, and the same query with caching off, have both cases.
\<close>

theorem stale_read_after_mutation:
  "fst (query mem_env q_case case_hub) = Inr (JArr [row_a]) \<and>
   fst (mutate mem_env m_create hub_after_query) = Inr row_b \<and>
   mem_rows ''Case'' (db hub_after_create) = [row_a, row_b] \<and>
   redis_keys ''dmh:*Case*'' (redis hub_after_query) = [] \<and>
   fst (query mem_env q_case hub_after_create) = Inr (JArr [row_a]) \<and>
   fst (query mem_env q_case_uncached hub_after_create) = Inr (JArr [row_a, row_b])"
  by code_simp

text \<open>
  C2: the claim has the hit ratio equal to the hits divided by the executed queries. The
  code multiplies that quotient by 100: the ratio is a percentage. With one hit and two
  executed queries it is 50, and the quotient is one half.
\<close>

theorem cacheHitRatio_counterexample:
  "cacheHitRatio (getPerformanceMetrics half_hit_hub) = 50 \<and>
   double_div (of_nat (cacheHits (hub_metrics half_hit_hub)))
     (of_nat (totalQueries (hub_metrics half_hit_hub))) = 1 / 2 \<and>
   cacheHitRatio (getPerformanceMetrics half_hit_hub)
     \<noteq> double_div (of_nat (cacheHits (hub_metrics half_hit_hub)))
         (of_nat (totalQueries (hub_metrics half_hit_hub)))"
  by code_simp

text \<open>
  C2, amended: for every state of the counters, the hit ratio is the hits divided by the
  executed queries and then multiplied by 100, each of the two operations giving the
  nearest double, and it is 0 when no query has been executed (no division by zero).
\<close>

theorem cacheHitRatio_percentage:
  "cacheHitRatio (getPerformanceMetrics s) =
     (if totalQueries (hub_metrics s) = 0 then 0
      else to_double
             (to_double (of_nat (cacheHits (hub_metrics s)) / of_nat (totalQueries (hub_metrics s)))
              * 100))"
  by (simp add: getPerformanceMetrics_def double_mul_def double_div_def Let_def)

text \<open>
  Seven hits of a hundred executed queries: the quotient is not a double and the product
  is rounded again, which gives 7.000000000000001.
\<close>

theorem cacheHitRatio_percentage_witness:
  "cacheHitRatio (getPerformanceMetrics seven_hit_hub) = 7 + 1 / 2 ^ 50"
proof -
  have a: "totalQueries (hub_metrics seven_hit_hub) = 100"
    and b: "cacheHits (hub_metrics seven_hit_hub) = 7"
    by (simp_all add: seven_hit_hub_def initial_hub_def initial_metrics_def)
  have c: "to_double (to_double (7 / 100) * 100) = 7 + 1 / 2 ^ 50"
    by code_simp
  from cacheHitRatio_percentage [of seven_hit_hub] a b c show ?thesis by simp
qed

text \<open>
  C3: the cache key must depend on the whole, order-normalised request, so that different
  requests get different keys. The code keeps the first 16 characters of the Base64 text,
  which encode the first 12 bytes of the JSON text. The theorem runs the code: a query for
  active clients with a limit and a bare query for cases are different requests with the
  same key, and the same request written with its properties in another order gets another
  key.
\<close>

theorem generateCacheKey_collision:
  "q_client_active \<noteq> q_case \<and>
   generateCacheKey ''query'' q_client_active = ''dmh:query:eyJlbnRpdHkiOiJD'' \<and>
   generateCacheKey ''query'' q_case = ''dmh:query:eyJlbnRpdHkiOiJD'' \<and>
   generateCacheKey ''query'' q_case_limit \<noteq> generateCacheKey ''query'' q_limit_case"
  by code_simp



text \<open>
  C5: a caller who lacks a permission the module requires must be refused with
  \<^verbatim>\<open>PermissionDenied\<close> before any query is issued. The code has no such check:
  \<^verbatim>\<open>validateUserPermissions\<close> is empty. The theorem runs the code: a client asking for
  the legal research module is not refused; the hub is queried and the call fails only
  because the first entity has no repository. A guest asking for the client portal gets a
  response, after six hub queries and five select queries on the primary store.
\<close>

theorem getModuleData_without_permission_check:
  "validateUserPermissions ctx requirements = None \<and>
   (case getModuleData mem_env ctx_research case_provider of
      (r, st) \<Rightarrow>
        r = Inl (RepositoryNotFound (Some (JStr ''ResearchTask''))) \<and>
        queryCount (hub_metrics (hub st)) = 1 \<and> redis_calls (hub st) = 1) \<and>
   (case getModuleData mem_env ctx_guest case_provider of
      (r, st) \<Rightarrow>
        \<not> isl r \<and> queryCount (hub_metrics (hub st)) = 6 \<and> storage_reads (hub st) = 5)"
proof -
  have a: "validateUserPermissions ctx requirements = None"
    by (simp add: validateUserPermissions_def)
  have b: "(case getModuleData mem_env ctx_research case_provider of
      (r, st) \<Rightarrow>
        r = Inl (RepositoryNotFound (Some (JStr ''ResearchTask''))) \<and>
        queryCount (hub_metrics (hub st)) = 1 \<and> redis_calls (hub st) = 1)"
    by code_simp
  have c: "(case getModuleData mem_env ctx_guest case_provider of
      (r, st) \<Rightarrow>
        \<not> isl r \<and> queryCount (hub_metrics (hub st)) = 6 \<and> storage_reads (hub st) = 5)"
    by code_simp
  from a b c show ?thesis by blast
qed

text \<open>
  C6: a failure of the cache store must never reach the caller of a hub operation. In
  \<^verbatim>\<open>mutate\<close> it does: \<^verbatim>\<open>invalidateEntityCache\<close> catches nothing, unlike
  \<^verbatim>\<open>getFromCache\<close>, \<^verbatim>\<open>setCache\<close> and \<^verbatim>\<open>clearCache\<close>. The theorem runs the
  code with a cache store that is down: the creation of a case is committed, and the caller
  gets an error, the one of the rollback attempted after the commit, or the cache error
  itself where such a rollback raises nothing. A query under the same conditions returns
  its rows.
\<close>

theorem mutate_cache_failure_reaches_caller:
  "fst (mutate down_env m_create case_hub) = Inl TransactionNotStarted \<and>
   mem_rows ''Case'' (db (snd (mutate down_env m_create case_hub))) = [row_a, row_b] \<and>
   fst (mutate (down_env\<lparr>rollback_inactive := None\<rparr>) m_create case_hub) = Inl CacheError \<and>
   fst (query down_env q_case case_hub) = Inr (JArr [row_a])"
  by code_simp

text \<open>
  C7: a mutation whose operation is a string other than create, update, delete and upsert
  fails with the unsupported-operation error, and nothing is committed: the hub's state is
  what it was before the call.
\<close>

theorem mutate_unsupported_operation:
  assumes "field ''operation'' m = Some (JStr operation)"
    and "operation \<notin> {''create'', ''update'', ''delete'', ''upsert''}"
  shows "mutate env m s = (Inl (UnsupportedOperation (Some (JStr operation))), s)"
proof -
  from assms(1) have "m \<noteq> JNull" by auto
  with assms
  have "transaction_body env m (db s)
          = (Inl (UnsupportedOperation (Some (JStr operation))), db s)"
    by (simp add: transaction_body_def dispatch_def validateEntityRelations_def Let_def)
  then show ?thesis
    by (simp add: mutate_def startTransaction_def mutate_handler_rolls_back)
qed

theorem mutate_unsupported_operation_witness:
  "field ''operation'' m_archive = Some (JStr ''archive'') \<and>
   mutate mem_env m_archive case_hub
     = (Inl (UnsupportedOperation (Some (JStr ''archive''))), case_hub)"
proof -
  have a: "field ''operation'' m_archive = Some (JStr ''archive'')"
    by (simp add: m_archive_def)
  have b: "''archive'' \<notin> {''create'', ''update'', ''delete'', ''upsert''}"
    by simp
  from a mutate_unsupported_operation [OF a b] show ?thesis by blast
qed

text \<open>
  C8: the claim has every query with \<^verbatim>\<open>cache = true\<close> served from the cache when it is
  issued a second time with the same shape. The code runs the select query again in three
  cases, each time with the same rows returned and no hit counted: the second request has
  the same properties in another order (it gets another key); the request asks for a time
  to live of -1, which the cache store refuses, so that nothing is cached; the cache store
  is down, so that the write and the read both fail and count as a miss.
\<close>

theorem query_twice_counterexample:
  "fst (query mem_env q_cached_case hub_after_cached_query) = Inr (JArr [row_a]) \<and>
   storage_reads (snd (query mem_env q_cached_case hub_after_cached_query)) = 2 \<and>
   cacheHits (hub_metrics (snd (query mem_env q_cached_case hub_after_cached_query))) = 0 \<and>
   fst (query mem_env q_case_short_lived hub_after_short_lived_query) = Inr (JArr [row_a]) \<and>
   storage_reads (snd (query mem_env q_case_short_lived hub_after_short_lived_query)) = 2 \<and>
   cacheHits (hub_metrics (snd (query mem_env q_case_short_lived hub_after_short_lived_query)))
     = 0 \<and>
   storage_reads
     (snd (query down_env q_case_cached (snd (query down_env q_case_cached case_hub)))) = 2 \<and>
   cacheHits (hub_metrics
     (snd (query down_env q_case_cached (snd (query down_env q_case_cached case_hub))))) = 0"
  by code_simp

text \<open>
  C8, amended: a query with \<^verbatim>\<open>cache = true\<close> that returned a result returns the same
  result when the same request, with its properties in the same order, is issued again on
  the state the first call left, provided the cache store answers its commands and accepts
  the time to live of the entry (the default when \<^verbatim>\<open>cacheTTL\<close> is absent or 0, else a
  positive whole number of seconds). The second call runs no select query on the primary
  store, leaves store and cache as they are, and the hit counter goes up by one. The model
  has no clock, so the entry has not expired.
\<close>

theorem query_twice_served_from_cache:
  assumes "field ''cache'' q = Some (JBool True)"
    and "\<forall>n. \<not> redis_fault env n"
    and "parse_ttl (to_string (cache_ttl q)) = Some t"
    and "query env q s = (Inr r, s1)"
  shows "\<exists>s2. query env q s1 = (Inr r, s2) \<and> storage_reads s2 = storage_reads s1 \<and>
           cacheHits (hub_metrics s2) = cacheHits (hub_metrics s1) + 1 \<and>
           db s2 = db s1 \<and> redis s2 = redis s1"
proof -
  from assms(1) have q: "q \<noteq> JNull" "caching q" by (auto simp: caching_def)
  from query_leaves_entry [OF assms(4) q assms(2,3)]
  have e: "redis_get (redis s1) (generateCacheKey ''query'' q) = Some r" "truthy r"
    by simp_all
  from assms(2) have "\<not> redis_fault env (redis_calls s1)" by simp
  from query_hit [OF q this e] show ?thesis by simp
qed

theorem query_twice_served_from_cache_witness:
  "fst (query mem_env q_case_cached case_hub) = Inr (JArr [row_a]) \<and>
   fst (query mem_env q_case_cached hub_after_cached_query) = Inr (JArr [row_a]) \<and>
   storage_reads (snd (query mem_env q_case_cached hub_after_cached_query)) = 1 \<and>
   cacheHits (hub_metrics (snd (query mem_env q_case_cached hub_after_cached_query))) = 1"
proof -
  have a: "field ''cache'' q_case_cached = Some (JBool True)"
    by (simp add: q_case_cached_def)
  have b: "\<forall>n. \<not> redis_fault mem_env n"
    by (simp add: mem_env_def)
  have c: "parse_ttl (to_string (cache_ttl q_case_cached)) = Some 3600"
    by code_simp
  have d: "fst (query mem_env q_case_cached case_hub) = Inr (JArr [row_a])"
    by code_simp
  have e: "storage_reads hub_after_cached_query = 1 \<and>
           cacheHits (hub_metrics hub_after_cached_query) = 0"
    by code_simp
  from d have f: "query mem_env q_case_cached case_hub = (Inr (JArr [row_a]), hub_after_cached_query)"
    by (simp add: hub_after_cached_query_def prod_eq_iff)
  from query_twice_served_from_cache [OF a b c f] d e show ?thesis by auto
qed

text \<open>
  C9: the claim has the miss counter, like the executed-query counter, the average query
  time and the \<^verbatim>\<open>data.accessed\<close> event, updated only when the query executes against
  storage. The code counts the miss as soon as the cache has missed, before it looks for
  the repository: a query for an entity without a repository fails with the miss counted
  and no select query run.
\<close>

theorem cacheMisses_counterexample:
  "fst (query mem_env q_research case_hub)
     = Inl (RepositoryNotFound (Some (JStr ''ResearchTask''))) \<and>
   cacheMisses (hub_metrics (snd (query mem_env q_research case_hub)))
     = cacheMisses (hub_metrics case_hub) + 1 \<and>
   storage_reads (snd (query mem_env q_research case_hub)) = storage_reads case_hub"
  by code_simp

text \<open>
  C9, amended: when a query is served from the cache, the query counter and the hit
  counter go up by one, the executed-query counter, the miss counter and the average query
  time stay as they are, and no \<^verbatim>\<open>data.accessed\<close> event is emitted. The
  executed-query counter, the average query time and the event change only in a call that
  runs a select query on the primary store. The miss counter goes up by one in every call
  with caching on that is not served from the cache, whether or not the call reaches the
  primary store, and in no other call.
\<close>

theorem query_cache_hit_frame:
  assumes "query env q s = (r, s')"
  shows "(served_from_cache env q s \<longrightarrow>
            (\<exists>v. redis_get (redis s) (generateCacheKey ''query'' q) = Some v \<and> r = Inr v) \<and>
            queryCount (hub_metrics s') = queryCount (hub_metrics s) + 1 \<and>
            cacheHits (hub_metrics s') = cacheHits (hub_metrics s) + 1 \<and>
            totalQueries (hub_metrics s') = totalQueries (hub_metrics s) \<and>
            cacheMisses (hub_metrics s') = cacheMisses (hub_metrics s) \<and>
            avgQueryTime (hub_metrics s') = avgQueryTime (hub_metrics s) \<and>
            events s' = events s \<and> storage_reads s' = storage_reads s)
       \<and> (storage_reads s' = storage_reads s \<longrightarrow>
            totalQueries (hub_metrics s') = totalQueries (hub_metrics s) \<and>
            avgQueryTime (hub_metrics s') = avgQueryTime (hub_metrics s) \<and>
            events s' = events s)
       \<and> cacheMisses (hub_metrics s') =
            (if q \<noteq> JNull \<and> caching q \<and> \<not> served_from_cache env q s
             then cacheMisses (hub_metrics s) + 1 else cacheMisses (hub_metrics s))"
proof (intro conjI impI)
  assume h: "served_from_cache env q s"
  then obtain v where v: "redis_get (redis s) (generateCacheKey ''query'' q) = Some v" "truthy v"
    by (cases "redis_get (redis s) (generateCacheKey ''query'' q)")
      (auto simp: served_from_cache_def)
  from h have "q \<noteq> JNull" "caching q" "\<not> redis_fault env (redis_calls s)"
    by (simp_all add: served_from_cache_def)
  from query_hit [OF this v] assms
  have r: "r = Inr v"
    and s': "s' = s\<lparr>hub_metrics := (hub_metrics s)\<lparr>queryCount := queryCount (hub_metrics s) + 1,
                                                  cacheHits := cacheHits (hub_metrics s) + 1\<rparr>,
                    redis_calls := redis_calls s + 1\<rparr>"
    by simp_all
  from v r show "\<exists>v. redis_get (redis s) (generateCacheKey ''query'' q) = Some v \<and> r = Inr v"
    by simp
  from s' show "queryCount (hub_metrics s') = queryCount (hub_metrics s) + 1" by simp
  from s' show "cacheHits (hub_metrics s') = cacheHits (hub_metrics s) + 1" by simp
  from s' show "totalQueries (hub_metrics s') = totalQueries (hub_metrics s)" by simp
  from s' show "cacheMisses (hub_metrics s') = cacheMisses (hub_metrics s)" by simp
  from s' show "avgQueryTime (hub_metrics s') = avgQueryTime (hub_metrics s)" by simp
  from s' show "events s' = events s" by simp
  from s' show "storage_reads s' = storage_reads s" by simp
next
  assume h: "storage_reads s' = storage_reads s"
  have *: "totalQueries (hub_metrics s') = totalQueries (hub_metrics s) \<and>
           avgQueryTime (hub_metrics s') = avgQueryTime (hub_metrics s) \<and> events s' = events s"
    using assms h
    by (auto simp: query_def Let_def getFromCache_def bump_queryCount_def bump_cacheHits_def
        bump_cacheMisses_def
        split: if_splits prod.splits option.splits
        dest!: run_query_unchanged_without_storage)
  from * show "totalQueries (hub_metrics s') = totalQueries (hub_metrics s)" by simp
  from * show "avgQueryTime (hub_metrics s') = avgQueryTime (hub_metrics s)" by simp
  from * show "events s' = events s" by simp
next
  have m: "cacheMisses (hub_metrics b) = cacheMisses (hub_metrics a)"
    if "run_query env n q a = (x, b)" for n a x b
    using that
    by (auto simp: run_query_def setCache_def updateQueryMetrics_def Let_def
        split: option.splits sum.splits if_splits)
  show "cacheMisses (hub_metrics s') =
          (if q \<noteq> JNull \<and> caching q \<and> \<not> served_from_cache env q s
           then cacheMisses (hub_metrics s) + 1 else cacheMisses (hub_metrics s))"
    using assms
    by (auto simp: query_def Let_def getFromCache_def bump_queryCount_def bump_cacheHits_def
        bump_cacheMisses_def served_from_cache_def
        split: if_splits prod.splits option.splits
        dest!: m)
qed

text \<open>
  A query served from the cache, and the query for an entity without a repository: the
  first leaves the miss counter at 1, the second moves it from 0 to 1.
\<close>

theorem query_cache_hit_frame_witness:
  "served_from_cache mem_env q_case hub_after_query \<and>
   fst (query mem_env q_case hub_after_query) = Inr (JArr [row_a]) \<and>
   queryCount (hub_metrics (snd (query mem_env q_case hub_after_query))) = 2 \<and>
   cacheHits (hub_metrics (snd (query mem_env q_case hub_after_query))) = 1 \<and>
   totalQueries (hub_metrics (snd (query mem_env q_case hub_after_query))) = 1 \<and>
   cacheMisses (hub_metrics (snd (query mem_env q_case hub_after_query))) = 1 \<and>
   avgQueryTime (hub_metrics (snd (query mem_env q_case hub_after_query))) = 0 \<and>
   events (snd (query mem_env q_case hub_after_query)) = [DataAccessed ''Case'' 1 0] \<and>
   \<not> served_from_cache mem_env q_research case_hub \<and>
   cacheMisses (hub_metrics (snd (query mem_env q_research case_hub))) = 1"
proof -
  have a: "served_from_cache mem_env q_case hub_after_query"
    by code_simp
  have b: "hub_metrics hub_after_query =
             \<lparr>queryCount = 1, cacheHits = 0, cacheMisses = 1, avgQueryTime = 0,
              totalQueries = 1\<rparr>"
    by code_simp
  have c: "events hub_after_query = [DataAccessed ''Case'' 1 0]"
    by code_simp
  have d: "redis_get (redis hub_after_query) (generateCacheKey ''query'' q_case)
             = Some (JArr [row_a])"
    by code_simp
  have e: "query mem_env q_case hub_after_query
             = (fst (query mem_env q_case hub_after_query),
                snd (query mem_env q_case hub_after_query))"
    by simp
  have f: "q_research \<noteq> JNull \<and> caching q_research \<and>
           \<not> served_from_cache mem_env q_research case_hub \<and>
           cacheMisses (hub_metrics case_hub) = 0"
    by code_simp
  have g: "query mem_env q_research case_hub
             = (fst (query mem_env q_research case_hub),
                snd (query mem_env q_research case_hub))"
    by simp
  from query_cache_hit_frame [OF e] a b c d
  have hit: "fst (query mem_env q_case hub_after_query) = Inr (JArr [row_a]) \<and>
   queryCount (hub_metrics (snd (query mem_env q_case hub_after_query))) = 2 \<and>
   cacheHits (hub_metrics (snd (query mem_env q_case hub_after_query))) = 1 \<and>
   totalQueries (hub_metrics (snd (query mem_env q_case hub_after_query))) = 1 \<and>
   cacheMisses (hub_metrics (snd (query mem_env q_case hub_after_query))) = 1 \<and>
   avgQueryTime (hub_metrics (snd (query mem_env q_case hub_after_query))) = 0 \<and>
   events (snd (query mem_env q_case hub_after_query)) = [DataAccessed ''Case'' 1 0]"
    by simp
  from query_cache_hit_frame [OF g] f
  have miss: "cacheMisses (hub_metrics (snd (query mem_env q_research case_hub))) = 1"
    by simp
  from a hit miss f show ?thesis by blast
qed

text \<open>
  C10: the adapter factory has an adapter for the client portal, the AI assistant and the
  document management module and for no other module name; the four other modules of the
  requirements registry have requirements and no adapter.
\<close>

theorem getAdapter_three_modules:
  "(getAdapter name \<noteq> None)
     = (name \<in> {''client-portal'', ''ai-assistant'', ''document-management''}) \<and>
   getAdapter ''legal-research'' = None \<and>
   map_of moduleRequirements ''legal-research'' \<noteq> None \<and>
   getAdapter ''workflow-automation'' = None \<and>
   map_of moduleRequirements ''workflow-automation'' \<noteq> None \<and>
   getAdapter ''integration-management'' = None \<and>
   map_of moduleRequirements ''integration-management'' \<noteq> None \<and>
   getAdapter ''entity-management'' = None \<and>
   map_of moduleRequirements ''entity-management'' \<noteq> None"
  by (simp add: getAdapter_def adapters_def moduleRequirements_def)

theorem getAdapter_three_modules_witness:
  "getAdapter ''client-portal'' \<noteq> None \<and> getAdapter ''billing'' = None"
  using getAdapter_three_modules [of "''client-portal''"]
    getAdapter_three_modules [of "''billing''"]
  by simp

end
